theory Spec2Isabelle
  imports Complex_Main "HOL-Library.Word"
begin

unbundle bit_operations_syntax

section \<open>Machine types\<close>

text \<open>
  \<open>uint\<close> is the 32-bit unsigned integer of the sources: arithmetic wraps around.
  \<open>int\<close> is the 32-bit signed integer; it is kept as a word as well and read with
  \<open>sint\<close> where the source compares it as a signed number. The cast \<open>(uint)streamId\<close>
  of the sources is then the identity.
\<close>

type_synonym uint = "32 word"
type_synonym cint = "32 word"

text \<open>
  A call into code that may raise a C++ exception either returns a value or throws;
  both leave a state behind.
\<close>

datatype ('r, 's) outcome = Returns 'r 's | Throws 's

section \<open>The GLib main context\<close>

text \<open>
  The sources start and cancel timers with \<open>g_timeout_add\<close> and \<open>g_source_remove\<close>.
  The main context is explicit state: the last source id handed out and the list of the
  sources that are attached, each with its interval in milliseconds and its callback.
  \<open>g_timeout_add\<close> returns an id greater than zero, as GLib documents it.
\<close>

datatype callback =
    ShowSourceTimerHandler
  | NotifyClientsTimerHandler
  | PlayerPause
  | PlayerStop

record main_context =
  last_source_id :: nat
  attached :: "(nat \<times> nat \<times> callback) list"

definition g_timeout_add :: "nat \<Rightarrow> callback \<Rightarrow> main_context \<Rightarrow> nat \<times> main_context" where
  "g_timeout_add interval cb g =
     (let i = Suc (last_source_id g)
      in (i, g\<lparr>last_source_id := i, attached := attached g @ [(i, interval, cb)]\<rparr>))"

definition g_source_remove :: "nat \<Rightarrow> main_context \<Rightarrow> main_context" where
  "g_source_remove i g = g\<lparr>attached := filter (\<lambda>s. fst s \<noteq> i) (attached g)\<rparr>"

definition is_attached :: "nat \<Rightarrow> main_context \<Rightarrow> bool" where
  "is_attached i g = (i \<in> fst ` set (attached g))"

section \<open>The container base class (DslBintr.h)\<close>

text \<open>
  The fields of \<open>Bintr\<close> that the operations below read or write. \<open>IsInUse()\<close> belongs
  to the node base class, which is not among the sources: its answer is the field
  \<open>in_use\<close>, a parameter of the model that nothing here ties to \<open>m_isLinked\<close>.
\<close>

record Bintr =
  m_pipelineId :: uint
  m_isLinked :: bool
  in_use :: bool
  m_batchSize :: uint
  m_gpuId :: uint
  m_nvbufMemType :: uint

definition IsLinked :: "'a Bintr_scheme \<Rightarrow> bool" where
  "IsLinked b = m_isLinked b"

definition IsInUse :: "'a Bintr_scheme \<Rightarrow> bool" where
  "IsInUse b = in_use b"

text \<open>\<open>Bintr::SetGpuId\<close> and \<open>Bintr::SetNvbufMemType\<close>: the result and the node after the call.\<close>

definition Bintr_SetGpuId :: "uint \<Rightarrow> 'a Bintr_scheme \<Rightarrow> bool \<times> 'a Bintr_scheme" where
  "Bintr_SetGpuId gpuId b =
     (if IsLinked b then (False, b)
      else (True, b\<lparr>m_gpuId := gpuId\<rparr>))"

definition Bintr_SetNvbufMemType :: "uint \<Rightarrow> 'a Bintr_scheme \<Rightarrow> bool \<times> 'a Bintr_scheme" where
  "Bintr_SetNvbufMemType nvbufMemType b =
     (if IsInUse b then (False, b)
      else (True, b\<lparr>m_nvbufMemType := nvbufMemType\<rparr>))"

section \<open>The Tiler (DslTilerBintr.cpp)\<close>

text \<open>
  The show-source state of \<open>TilerBintr\<close>. Timer ids are 0 when no timer is recorded.
  The listeners are the entries of the map from callback to client data. The properties
  of the GStreamer element, which the sources set next to the fields, are left out.
\<close>

record TilerBintr = Bintr +
  m_showStreamId :: cint
  m_showSourceTimeout :: uint
  m_showSourceCounter :: uint
  m_showSourceTimerId :: nat
  m_showSourceCycle :: bool
  m_notifyClientsTimerId :: nat
  m_wstrSourceName :: string
  m_showSourceListeners :: "(nat \<times> nat) list"

text \<open>
  \<open>Services::_sourceNameGet\<close> and the constant
  \<open>DSL_PIPELINE_SOURCE_UNIQUE_ID_OFFSET_IN_BITS\<close> are not among the sources. They are
  parameters: the registry of source names by unique source id (the lookup succeeds
  exactly on the ids that have a name) and the number of offset bits.
\<close>

record services_env =
  source_names :: "uint \<Rightarrow> string option"
  offset_in_bits :: nat

definition sourceId_of :: "services_env \<Rightarrow> uint \<Rightarrow> cint \<Rightarrow> uint" where
  "sourceId_of sv pipelineId streamId = (push_bit (offset_in_bits sv) pipelineId) OR streamId"

text \<open>
  The one-argument overload \<open>TilerBintr::SetShowSource(int streamId)\<close>. Its tail, from
  the assignment of \<open>m_showStreamId\<close> on, is \<open>commit_show_source\<close>: it records the
  stream and schedules the one-shot notification of the listeners when there are
  listeners and none is pending.
\<close>

definition commit_show_source ::
  "cint \<Rightarrow> TilerBintr \<Rightarrow> main_context \<Rightarrow> bool \<times> TilerBintr \<times> main_context" where
  "commit_show_source streamId t g =
     (let t1 = t\<lparr>m_showStreamId := streamId\<rparr>
      in if m_showSourceListeners t1 \<noteq> [] \<and> m_notifyClientsTimerId t1 = 0
         then (let (i, g') = g_timeout_add 1 NotifyClientsTimerHandler g
               in (True, t1\<lparr>m_notifyClientsTimerId := i\<rparr>, g'))
         else (True, t1, g))"

definition SetShowSource1 ::
  "services_env \<Rightarrow> cint \<Rightarrow> TilerBintr \<Rightarrow> main_context \<Rightarrow> bool \<times> TilerBintr \<times> main_context" where
  "SetShowSource1 sv streamId t g =
     (let t1 = t\<lparr>m_wstrSourceName := []\<rparr>
      in if streamId \<noteq> - 1
         then (case source_names sv (sourceId_of sv (m_pipelineId t1) streamId) of
                 Some cSourceName \<Rightarrow>
                   commit_show_source streamId (t1\<lparr>m_wstrSourceName := cSourceName\<rparr>) g
               | None \<Rightarrow> (False, t1, g))
         else commit_show_source streamId t1 g)"

text \<open>Starting the recurring show-source timer: \<open>g_timeout_add(100, ShowSourceTimerHandler, this)\<close>.\<close>

definition add_show_source_timer :: "TilerBintr \<Rightarrow> main_context \<Rightarrow> TilerBintr \<times> main_context" where
  "add_show_source_timer t g =
     (let (i, g') = g_timeout_add 100 ShowSourceTimerHandler g
      in (t\<lparr>m_showSourceTimerId := i\<rparr>, g'))"

text \<open>\<open>TilerBintr::SetShowSource(int streamId, uint timeout, bool hasPrecedence)\<close>.\<close>

definition SetShowSource ::
  "services_env \<Rightarrow> cint \<Rightarrow> uint \<Rightarrow> bool \<Rightarrow> TilerBintr \<Rightarrow> main_context
     \<Rightarrow> bool \<times> TilerBintr \<times> main_context" where
  "SetShowSource sv streamId timeout hasPrecedence t g =
     (if sint streamId < 0 then (False, t, g)
      else
        (let t1 = t\<lparr>m_showSourceCycle := False\<rparr>
         in if streamId \<noteq> m_showStreamId t1
            then
              (if m_showSourceTimerId t1 \<noteq> 0 \<and> \<not> hasPrecedence then (False, t1, g)
               else
                 (let t2 = t1\<lparr>m_showSourceTimeout := timeout\<rparr>
                  in case SetShowSource1 sv streamId t2 g of
                       (False, t3, g3) \<Rightarrow> (False, t3, g3)
                     | (True, t3, g3) \<Rightarrow>
                         (let t4 = t3\<lparr>m_showSourceCounter := m_showSourceTimeout t3 * 10\<rparr>
                          in if m_showSourceCounter t4 \<noteq> 0
                             then (let (t5, g5) = add_show_source_timer t4 g3 in (True, t5, g5))
                             else (True, t4, g3))))
            else
              (let t2 = t1\<lparr>m_showSourceTimeout := timeout, m_showSourceCounter := timeout * 10\<rparr>
               in if m_showSourceTimerId t2 = 0 \<and> m_showSourceCounter t2 \<noteq> 0
                  then (let (t3, g3) = add_show_source_timer t2 g in (True, t3, g3))
                  else (True, t2, g))))"

text \<open>
  \<open>TilerBintr::CycleAllSources(uint timeout)\<close>. The result of \<open>SetShowSource(0)\<close> is
  dropped, as in the sources.
\<close>

definition cancel_show_source_timer :: "TilerBintr \<Rightarrow> main_context \<Rightarrow> TilerBintr \<times> main_context" where
  "cancel_show_source_timer t g =
     (if m_showSourceTimerId t \<noteq> 0
      then (t\<lparr>m_showSourceTimerId := 0\<rparr>, g_source_remove (m_showSourceTimerId t) g)
      else (t, g))"

definition CycleAllSources ::
  "services_env \<Rightarrow> uint \<Rightarrow> TilerBintr \<Rightarrow> main_context \<Rightarrow> bool \<times> TilerBintr \<times> main_context" where
  "CycleAllSources sv timeout t g =
     (if timeout = 0 then (False, t, g)
      else
        (let (t1, g1) = cancel_show_source_timer t g;
             t2 = t1\<lparr>m_showSourceCycle := True, m_showSourceTimeout := timeout\<rparr>;
             (r, t3, g3) = SetShowSource1 sv 0 t2 g1;
             t4 = t3\<lparr>m_showSourceCounter := m_showSourceTimeout t3 * 10\<rparr>
         in if m_showSourceTimerId t4 = 0 \<and> m_showSourceCounter t4 \<noteq> 0
            then (let (t5, g5) = add_show_source_timer t4 g3 in (True, t5, g5))
            else (True, t4, g3)))"

text \<open>\<open>TilerBintr::ShowAllSources()\<close>.\<close>

definition ShowAllSources ::
  "services_env \<Rightarrow> TilerBintr \<Rightarrow> main_context \<Rightarrow> TilerBintr \<times> main_context" where
  "ShowAllSources sv t g =
     (let (t1, g1) =
            (if m_showSourceTimerId t \<noteq> 0
             then (t\<lparr>m_showSourceTimerId := 0, m_showSourceCycle := False\<rparr>,
                   g_source_remove (m_showSourceTimerId t) g)
             else (t, g))
      in if m_showStreamId t1 \<noteq> - 1
         then (let (r, t2, g2) = SetShowSource1 sv (- 1) t1 g1 in (t2, g2))
         else (t1, g1))"

text \<open>
  \<open>TilerBintr::HandleShowSourceTimer()\<close>. The result is \<open>None\<close> where the sources take
  the remainder by a batch size of zero, which C++ leaves undefined; otherwise it is the
  value returned to GLib (true keeps the timer, false destroys it) with the state after
  the call. \<open>m_showStreamId + 1\<close> is taken in two's complement, and the remainder is the
  unsigned one, since \<open>m_batchSize\<close> is unsigned.
\<close>

definition HandleShowSourceTimer ::
  "services_env \<Rightarrow> TilerBintr \<Rightarrow> main_context \<Rightarrow> (bool \<times> TilerBintr \<times> main_context) option" where
  "HandleShowSourceTimer sv t g =
     (if \<not> IsLinked t then Some (True, t, g)
      else
        (let t1 = t\<lparr>m_showSourceCounter := m_showSourceCounter t - 1\<rparr>
         in if m_showSourceCounter t1 = 0
            then
              (if m_showSourceCycle t1
               then
                 (let t2 = t1\<lparr>m_showSourceCounter := m_showSourceTimeout t1 * 10\<rparr>
                  in if m_batchSize t2 = 0 then None
                     else
                       (let newStreamId = (m_showStreamId t2 + 1) mod m_batchSize t2;
                            (r, t3, g3) = SetShowSource1 sv newStreamId t2 g
                        in Some (True, t3, g3)))
               else
                 (let t2 = t1\<lparr>m_showSourceTimerId := 0\<rparr>;
                      (r, t3, g3) = SetShowSource1 sv (- 1) t2 g
                  in Some (False, t3, g3)))
            else Some (True, t1, g)))"

text \<open>
  One firing of the recurring timer \<open>i\<close> by the main loop: GLib calls the handler and
  destroys the source when the handler returns false.
\<close>

definition fire_show_source_timer ::
  "services_env \<Rightarrow> nat \<Rightarrow> TilerBintr \<Rightarrow> main_context \<Rightarrow> (TilerBintr \<times> main_context) option" where
  "fire_show_source_timer sv i t g =
     (if (i, 100, ShowSourceTimerHandler) \<in> set (attached g)
      then (case HandleShowSourceTimer sv t g of
              None \<Rightarrow> None
            | Some (continue, t', g') \<Rightarrow>
                Some (t', if continue then g' else g_source_remove i g'))
      else Some (t, g))"

text \<open>\<open>n\<close> firings of the timer \<open>i\<close> in a row.\<close>

fun ticks ::
  "services_env \<Rightarrow> nat \<Rightarrow> nat \<Rightarrow> TilerBintr \<Rightarrow> main_context \<Rightarrow> (TilerBintr \<times> main_context) option" where
  "ticks sv i 0 t g = Some (t, g)"
| "ticks sv i (Suc n) t g =
     (case fire_show_source_timer sv i t g of
        None \<Rightarrow> None
      | Some (t', g') \<Rightarrow> ticks sv i n t' g')"

text \<open>
  \<open>TilerBintr::LinkAll\<close>, \<open>UnlinkAll\<close>, \<open>SetGpuId\<close> and \<open>SetNvbufMemType\<close>. Linking the
  queue to the tiler element and the frame-number reset act on GStreamer objects only.
\<close>

definition Tiler_LinkAll :: "TilerBintr \<Rightarrow> bool \<times> TilerBintr" where
  "Tiler_LinkAll t = (if m_isLinked t then (False, t) else (True, t\<lparr>m_isLinked := True\<rparr>))"

definition Tiler_UnlinkAll :: "TilerBintr \<Rightarrow> TilerBintr" where
  "Tiler_UnlinkAll t = (if \<not> m_isLinked t then t else t\<lparr>m_isLinked := False\<rparr>)"

definition Tiler_SetGpuId :: "uint \<Rightarrow> TilerBintr \<Rightarrow> bool \<times> TilerBintr" where
  "Tiler_SetGpuId gpuId t =
     (if m_isLinked t then (False, t)
      else (True, t\<lparr>m_gpuId := gpuId\<rparr>))"

definition Tiler_SetNvbufMemType :: "uint \<Rightarrow> TilerBintr \<Rightarrow> bool \<times> TilerBintr" where
  "Tiler_SetNvbufMemType nvbufMemType t =
     (if m_isLinked t then (False, t)
      else (True, t\<lparr>m_nvbufMemType := nvbufMemType\<rparr>))"

text \<open>The calls a client can make on a Tiler that touch the link state or the two properties.\<close>

datatype node_call =
    Call_LinkAll
  | Call_UnlinkAll
  | Call_SetGpuId uint
  | Call_SetNvbufMemType uint

fun tiler_call :: "node_call \<Rightarrow> TilerBintr \<Rightarrow> TilerBintr" where
  "tiler_call Call_LinkAll t = snd (Tiler_LinkAll t)"
| "tiler_call Call_UnlinkAll t = Tiler_UnlinkAll t"
| "tiler_call (Call_SetGpuId x) t = snd (Tiler_SetGpuId x t)"
| "tiler_call (Call_SetNvbufMemType x) t = snd (Tiler_SetNvbufMemType x t)"

fun tiler_calls :: "node_call list \<Rightarrow> TilerBintr \<Rightarrow> TilerBintr" where
  "tiler_calls [] t = t"
| "tiler_calls (c # cs) t = tiler_calls cs (tiler_call c t)"

section \<open>The Player (DslPlayerBintr.cpp)\<close>

text \<open>
  The Source and Sink children, the state manager and the client's listeners are not
  among the sources. What the Player does to them is recorded, in order, in the field
  \<open>calls\<close>; what they answer is a parameter: whether each link or unlink call of a child
  succeeds, whether a listener raises, and whether the main loop is running.
\<close>

datatype player_event =
    Source_LinkAll
  | Sink_LinkAll
  | Source_LinkToSink
  | Source_UnlinkFromSink
  | Source_UnlinkAll
  | Sink_UnlinkAll
  | SendEos
  | Sleep_1
  | SetState_NULL
  | Cond_wait
  | Cond_signal
  | Listener_called nat nat

record collaborators =
  source_LinkAll_ok :: bool
  sink_LinkAll_ok :: bool
  source_LinkToSink_ok :: bool
  source_UnlinkFromSink_ok :: bool
  listener_raises :: "nat \<Rightarrow> bool"
  main_loop_is_running :: bool

text \<open>
  \<open>m_pSource\<close> and \<open>m_pSink\<close> hold the child's name, \<open>None\<close> for \<open>nullptr\<close>. The
  termination listeners are the entries of the map from callback to client data, in the
  order of the map's keys.
\<close>

record PlayerBintr = Bintr +
  m_pSource :: "string option"
  m_pSink :: "string option"
  m_terminationEventListeners :: "(nat \<times> nat) list"
  calls :: "player_event list"

definition emit :: "player_event \<Rightarrow> PlayerBintr \<Rightarrow> PlayerBintr" where
  "emit e p = p\<lparr>calls := calls p @ [e]\<rparr>"

text \<open>
  \<open>PlayerBintr::LinkAll\<close>. The three calls are the operands of one \<open>or\<close>: a later one is
  made only when the earlier ones succeeded.
\<close>

definition Player_LinkAll :: "collaborators \<Rightarrow> PlayerBintr \<Rightarrow> bool \<times> PlayerBintr" where
  "Player_LinkAll co p =
     (if m_pSource p = None \<or> m_pSink p = None then (False, p)
      else if m_isLinked p then (False, p)
      else
        (let p1 = emit Source_LinkAll p
         in if \<not> source_LinkAll_ok co then (False, p1)
            else
              (let p2 = emit Sink_LinkAll p1
               in if \<not> sink_LinkAll_ok co then (False, p2)
                  else
                    (let p3 = emit Source_LinkToSink p2
                     in if \<not> source_LinkToSink_ok co then (False, p3)
                        else (True, p3\<lparr>m_isLinked := True\<rparr>)))))"

text \<open>\<open>PlayerBintr::UnlinkAll\<close>.\<close>

definition Player_UnlinkAll :: "collaborators \<Rightarrow> PlayerBintr \<Rightarrow> PlayerBintr" where
  "Player_UnlinkAll co p =
     (if m_pSource p = None \<or> m_pSink p = None then p
      else if \<not> m_isLinked p then p
      else
        (let p1 = emit Source_UnlinkFromSink p
         in if \<not> source_UnlinkFromSink_ok co then p1
            else (emit Sink_UnlinkAll (emit Source_UnlinkAll p1))\<lparr>m_isLinked := False\<rparr>))"

text \<open>
  The loop over the termination listeners in \<open>HandleStop\<close>. A call of a listener either
  returns or raises; the \<open>catch(...)\<close> of the sources takes the exception and the loop
  goes on with the next entry.
\<close>

definition call_listener ::
  "collaborators \<Rightarrow> nat \<times> nat \<Rightarrow> PlayerBintr \<Rightarrow> (unit, PlayerBintr) outcome" where
  "call_listener co l p =
     (let p' = emit (Listener_called (fst l) (snd l)) p
      in if listener_raises co (fst l) then Throws p' else Returns () p')"

fun call_listeners :: "collaborators \<Rightarrow> (nat \<times> nat) list \<Rightarrow> PlayerBintr \<Rightarrow> PlayerBintr" where
  "call_listeners co [] p = p"
| "call_listeners co (l # ls) p =
     (case call_listener co l p of
        Returns u p' \<Rightarrow> call_listeners co ls p'
      | Throws p' \<Rightarrow> call_listeners co ls p')"

text \<open>\<open>PlayerBintr::HandleStop\<close>. The result of \<open>SetState\<close> is only logged.\<close>

definition HandleStop :: "collaborators \<Rightarrow> PlayerBintr \<Rightarrow> PlayerBintr" where
  "HandleStop co p =
     (let p1 = emit SetState_NULL p;
          p2 = Player_UnlinkAll co p1;
          p3 = (if main_loop_is_running co then emit Cond_signal p2 else p2)
      in call_listeners co (m_terminationEventListeners p3) p3)"

text \<open>
  \<open>PlayerBintr::Stop\<close>. With the main loop running, the caller adds the one-shot timer
  \<open>PlayerStop\<close> and waits on the condition; the wait ends once the main loop has run
  \<open>PlayerStop\<close>, which calls \<open>HandleStop\<close> and returns false, so that GLib destroys the
  one-shot source. The model gives the state at the end of the wait; how the two threads
  interleave with others is outside it.
\<close>

definition Stop :: "collaborators \<Rightarrow> PlayerBintr \<Rightarrow> main_context \<Rightarrow> bool \<times> PlayerBintr \<times> main_context" where
  "Stop co p g =
     (if \<not> IsLinked p then (False, p, g)
      else
        (let p1 = emit Sleep_1 (emit SendEos p)
         in if main_loop_is_running co
            then (let (i, g1) = g_timeout_add 1 PlayerStop g;
                      p2 = HandleStop co (emit Cond_wait p1)
                  in (True, p2, g_source_remove i g1))
            else (True, HandleStop co p1, g)))"

text \<open>\<open>AddTerminationEventListener\<close> and \<open>RemoveTerminationEventListener\<close>.\<close>

definition AddTerminationEventListener :: "nat \<Rightarrow> nat \<Rightarrow> PlayerBintr \<Rightarrow> bool \<times> PlayerBintr" where
  "AddTerminationEventListener listener clientData p =
     (if listener \<in> fst ` set (m_terminationEventListeners p) then (False, p)
      else (True, p\<lparr>m_terminationEventListeners :=
                       insort_key fst (listener, clientData) (m_terminationEventListeners p)\<rparr>))"

definition RemoveTerminationEventListener :: "nat \<Rightarrow> PlayerBintr \<Rightarrow> bool \<times> PlayerBintr" where
  "RemoveTerminationEventListener listener p =
     (if listener \<notin> fst ` set (m_terminationEventListeners p) then (False, p)
      else (True, p\<lparr>m_terminationEventListeners :=
                       filter (\<lambda>l. fst l \<noteq> listener) (m_terminationEventListeners p)\<rparr>))"

text \<open>The listener calls among a list of events.\<close>

fun is_listener_call :: "player_event \<Rightarrow> bool" where
  "is_listener_call (Listener_called f d) = True"
| "is_listener_call e = False"

section \<open>The service layer (DslServicesPipeline.cpp)\<close>

text \<open>
  The result codes the two services below return, and the kind of a component as the
  validation of the services asks for it.
\<close>

datatype DslReturnType =
    DSL_RESULT_SUCCESS
  | DSL_RESULT_PIPELINE_NAME_NOT_FOUND
  | DSL_RESULT_PIPELINE_THREW_EXCEPTION
  | DSL_RESULT_PIPELINE_STREAMMUX_SET_FAILED
  | DSL_RESULT_PIPELINE_AUDIOMIX_SET_FAILED
  | DSL_RESULT_COMPONENT_NAME_NOT_FOUND
  | DSL_RESULT_COMPONENT_NOT_THE_CORRECT_TYPE

datatype streammux_type = DSL_VIDEOMUX | DSL_AUDIOMUX

datatype component = AudioSourceBintr | OtherBintr

text \<open>
  The registries of the services: pipelines and components by name. The type of a
  pipeline is a parameter, since the pipeline class is not among the sources.
\<close>

record 'p Services =
  m_pipelines :: "string \<Rightarrow> 'p option"
  m_components :: "string \<Rightarrow> component option"

text \<open>
  A \<open>double\<close>, as far as comparisons see it: a real number, an infinity, or NaN. On finite
  values \<open>less_double\<close> is the order of the reals (the constants 0.0 and 10.0 are exact);
  every comparison with NaN is false.
\<close>

datatype double = Finite real | PlusInfinity | MinusInfinity | NaN

fun less_double :: "double \<Rightarrow> double \<Rightarrow> bool" where
  "less_double NaN y = False"
| "less_double x NaN = False"
| "less_double (Finite a) (Finite b) = (a < b)"
| "less_double (Finite a) PlusInfinity = True"
| "less_double (Finite a) MinusInfinity = False"
| "less_double PlusInfinity y = False"
| "less_double MinusInfinity (Finite b) = True"
| "less_double MinusInfinity PlusInfinity = True"
| "less_double MinusInfinity MinusInfinity = False"

text \<open>
  Modelled from the spec: the macros \<open>DSL_RETURN_IF_PIPELINE_NAME_NOT_FOUND\<close>,
  \<open>DSL_RETURN_IF_COMPONENT_NAME_NOT_FOUND\<close> and \<open>DSL_RETURN_IF_COMPONENT_IS_NOT_AUDIO_SOURCE\<close>
  are not among the sources. By the spec every mutating service call validates that the
  named pipeline and the named component exist before it delegates to the engine, with
  the result codes name-not-found and wrong-component-type. They are the first three
  tests of the services below. What the engine answers is the parameter \<open>engine\<close>:
  the pipeline's \<open>SetStreammuxNumSurfacesPerFrame\<close> or \<open>SetAudiomixVolume\<close>.
\<close>

definition store_pipeline :: "string \<Rightarrow> 'p \<Rightarrow> 'p Services \<Rightarrow> 'p Services" where
  "store_pipeline name p sv = sv\<lparr>m_pipelines := (m_pipelines sv)(name := Some p)\<rparr>"

text \<open>\<open>Services::PipelineStreammuxNumSurfacesPerFrameSet\<close>.\<close>

definition PipelineStreammuxNumSurfacesPerFrameSet ::
  "('p \<Rightarrow> streammux_type \<Rightarrow> uint \<Rightarrow> (bool, 'p) outcome) \<Rightarrow> 'p Services \<Rightarrow> string
     \<Rightarrow> streammux_type \<Rightarrow> uint \<Rightarrow> DslReturnType \<times> 'p Services" where
  "PipelineStreammuxNumSurfacesPerFrameSet engine sv name streammux num =
     (case m_pipelines sv name of
        None \<Rightarrow> (DSL_RESULT_PIPELINE_NAME_NOT_FOUND, sv)
      | Some p \<Rightarrow>
          if num > 4 then (DSL_RESULT_PIPELINE_STREAMMUX_SET_FAILED, sv)
          else
            (case engine p streammux num of
               Throws p' \<Rightarrow> (DSL_RESULT_PIPELINE_THREW_EXCEPTION, store_pipeline name p' sv)
             | Returns ok p' \<Rightarrow>
                 if \<not> ok then (DSL_RESULT_PIPELINE_STREAMMUX_SET_FAILED, store_pipeline name p' sv)
                 else (DSL_RESULT_SUCCESS, store_pipeline name p' sv)))"

text \<open>\<open>Services::PipelineAudiomixVolumeSet\<close>. The audio source is passed on by its name.\<close>

definition PipelineAudiomixVolumeSet ::
  "('p \<Rightarrow> string \<Rightarrow> double \<Rightarrow> (bool, 'p) outcome) \<Rightarrow> 'p Services \<Rightarrow> string
     \<Rightarrow> string \<Rightarrow> double \<Rightarrow> DslReturnType \<times> 'p Services" where
  "PipelineAudiomixVolumeSet engine sv name source volume =
     (case m_pipelines sv name of
        None \<Rightarrow> (DSL_RESULT_PIPELINE_NAME_NOT_FOUND, sv)
      | Some p \<Rightarrow>
          (case m_components sv source of
             None \<Rightarrow> (DSL_RESULT_COMPONENT_NAME_NOT_FOUND, sv)
           | Some c \<Rightarrow>
               if c \<noteq> AudioSourceBintr then (DSL_RESULT_COMPONENT_NOT_THE_CORRECT_TYPE, sv)
               else if less_double volume (Finite 0) \<or> less_double (Finite 10) volume
               then (DSL_RESULT_PIPELINE_AUDIOMIX_SET_FAILED, sv)
               else
                 (case engine p source volume of
                    Throws p' \<Rightarrow> (DSL_RESULT_PIPELINE_THREW_EXCEPTION, store_pipeline name p' sv)
                  | Returns ok p' \<Rightarrow>
                      if \<not> ok then (DSL_RESULT_PIPELINE_AUDIOMIX_SET_FAILED, store_pipeline name p' sv)
                      else (DSL_RESULT_SUCCESS, store_pipeline name p' sv))))"

text \<open>
  Modelled from the spec: the engine's \<open>SetAudiomixVolume\<close>, which is not among the
  sources. By the spec the Multiplexer keeps, per attached input and keyed by the
  identity of the owning input, a mute flag and a volume in [0.0, 10.0]; \<open>SetVolume\<close>
  rejects values outside [0.0, 10.0] without mutation and without affecting other ports.
\<close>

record port_config =
  mute :: bool
  volume :: double

record PipelineBintr =
  audiomix_ports :: "string \<Rightarrow> port_config"

fun in_volume_range :: "double \<Rightarrow> bool" where
  "in_volume_range (Finite v) = (0 \<le> v \<and> v \<le> 10)"
| "in_volume_range x = False"

definition SetAudiomixVolume :: "PipelineBintr \<Rightarrow> string \<Rightarrow> double \<Rightarrow> (bool, PipelineBintr) outcome" where
  "SetAudiomixVolume p source v =
     (if \<not> in_volume_range v then Returns False p
      else Returns True
             (p\<lparr>audiomix_ports := (audiomix_ports p)(source := (audiomix_ports p source)\<lparr>volume := v\<rparr>)\<rparr>))"

section \<open>The slot pool of the Source Aggregator (DslPipelineSourcesBintr.h)\<close>

text \<open>
  Modelled from the spec: the sources hold the declaration of the pool only,
  \<open>std::vector<bool> m_usedRequestPadIds\<close>; the code that allocates and releases is not
  among them. By the spec the pool is a bounded set of used flags, one per slot index;
  \<open>Allocate\<close> scans from index 0 upward and returns the first free index, marking it used,
  and fails only if the pool is exhausted; \<open>Release\<close> clears the used flag, and releasing
  an unused or out-of-range index is a no-op reported as an error.
\<close>

type_synonym slot_pool = "bool list"

function scan_from :: "nat \<Rightarrow> slot_pool \<Rightarrow> nat option" where
  "scan_from i m_usedRequestPadIds =
     (if i < length m_usedRequestPadIds
      then (if m_usedRequestPadIds ! i then scan_from (Suc i) m_usedRequestPadIds else Some i)
      else None)"
  by pat_completeness auto
termination
  by (relation "measure (\<lambda>(i, m_usedRequestPadIds). length m_usedRequestPadIds - i)") auto

definition Allocate :: "slot_pool \<Rightarrow> (nat \<times> slot_pool) option" where
  "Allocate m_usedRequestPadIds =
     (case scan_from 0 m_usedRequestPadIds of
        None \<Rightarrow> None
      | Some slotId \<Rightarrow> Some (slotId, m_usedRequestPadIds[slotId := True]))"

definition Release :: "nat \<Rightarrow> slot_pool \<Rightarrow> bool \<times> slot_pool" where
  "Release slotId m_usedRequestPadIds =
     (if slotId < length m_usedRequestPadIds \<and> m_usedRequestPadIds ! slotId
      then (True, m_usedRequestPadIds[slotId := False])
      else (False, m_usedRequestPadIds))"

section \<open>Example states\<close>

text \<open>
  A services registry where the sources 0 and 2 of pipeline 0 have names and slot 1 is
  vacant, one where slot 0 is vacant, an empty main context, and an idle, linked
  Tiler with batch size 3.
\<close>

definition services0 :: services_env where
  "services0 =
     \<lparr>source_names = (\<lambda>i. if i = 0 then Some ''cam0'' else if i = 2 then Some ''cam2'' else None),
      offset_in_bits = 16\<rparr>"

definition services_no0 :: services_env where
  "services_no0 =
     \<lparr>source_names = (\<lambda>i. if i = 1 then Some ''cam1'' else if i = 2 then Some ''cam2'' else None),
      offset_in_bits = 16\<rparr>"

definition context0 :: main_context where
  "context0 = \<lparr>last_source_id = 0, attached = []\<rparr>"

definition tiler0 :: TilerBintr where
  "tiler0 =
     \<lparr>m_pipelineId = 0, m_isLinked = True, in_use = True, m_batchSize = 3, m_gpuId = 0,
      m_nvbufMemType = 0, m_showStreamId = - 1, m_showSourceTimeout = 0,
      m_showSourceCounter = 0, m_showSourceTimerId = 0, m_showSourceCycle = False,
      m_notifyClientsTimerId = 0, m_wstrSourceName = [], m_showSourceListeners = []\<rparr>"

text \<open>
  The Tiler and the main context after \<open>CycleAllSources(2)\<close> on the idle Tiler (lemma
  \<open>cycling_is_reached\<close> below): source 0 is shown, timer 1 runs, 20 ticks remain.
\<close>

definition tiler_cycling :: TilerBintr where
  "tiler_cycling =
     tiler0\<lparr>m_showStreamId := 0, m_showSourceTimeout := 2, m_showSourceCounter := 20,
            m_showSourceTimerId := 1, m_showSourceCycle := True, m_wstrSourceName := ''cam0''\<rparr>"

definition context1 :: main_context where
  "context1 = \<lparr>last_source_id = 1, attached = [(1, 100, ShowSourceTimerHandler)]\<rparr>"

text \<open>A linked Tiler that shows source 2 without cycling, one tick before its timer expires.\<close>

definition tiler_showing_2 :: TilerBintr where
  "tiler_showing_2 =
     tiler0\<lparr>m_showStreamId := 2, m_showSourceTimeout := 5, m_showSourceCounter := 1,
            m_showSourceTimerId := 1, m_wstrSourceName := ''cam2''\<rparr>"

text \<open>A node of the base class that is linked and in use.\<close>

definition node0 :: Bintr where
  "node0 =
     \<lparr>m_pipelineId = 0, m_isLinked = True, in_use = True, m_batchSize = 1, m_gpuId = 0,
      m_nvbufMemType = 0\<rparr>"

text \<open>
  A Player with both children and three termination listeners, not linked; the same
  Player after \<open>LinkAll\<close> (lemma \<open>player_linked_is_reached\<close> below); collaborators where
  every link and unlink call succeeds, the listener 11 raises and no main loop runs; and
  collaborators where the Source cannot be unlinked from the Sink.
\<close>

definition player0 :: PlayerBintr where
  "player0 =
     \<lparr>m_pipelineId = 0, m_isLinked = False, in_use = False, m_batchSize = 0, m_gpuId = 0,
      m_nvbufMemType = 0, m_pSource = Some ''file-source'', m_pSink = Some ''window-sink'',
      m_terminationEventListeners = [(11, 100), (12, 200), (13, 300)], calls = []\<rparr>"

definition all_ok :: collaborators where
  "all_ok =
     \<lparr>source_LinkAll_ok = True, sink_LinkAll_ok = True, source_LinkToSink_ok = True,
      source_UnlinkFromSink_ok = True, listener_raises = (\<lambda>f. f = 11),
      main_loop_is_running = False\<rparr>"

definition player_linked :: PlayerBintr where
  "player_linked = player0\<lparr>m_isLinked := True, calls := [Source_LinkAll, Sink_LinkAll, Source_LinkToSink]\<rparr>"

definition unlink_fails :: collaborators where
  "unlink_fails = all_ok\<lparr>source_UnlinkFromSink_ok := False\<rparr>"

text \<open>
  Services that know one pipeline, whose ports all have the default volume 1.0, and the
  audio sources mic and radio; the volume of a port of a named pipeline.
\<close>

definition pipeline0 :: PipelineBintr where
  "pipeline0 = \<lparr>audiomix_ports = (\<lambda>s. \<lparr>mute = False, volume = Finite 1\<rparr>)\<rparr>"

definition dsl0 :: "PipelineBintr Services" where
  "dsl0 =
     \<lparr>m_pipelines = (\<lambda>n. if n = ''pipeline'' then Some pipeline0 else None),
      m_components = (\<lambda>n. if n = ''mic'' then Some AudioSourceBintr
                           else if n = ''radio'' then Some AudioSourceBintr
                           else if n = ''tiler'' then Some OtherBintr else None)\<rparr>"

definition volume_of :: "PipelineBintr Services \<Rightarrow> string \<Rightarrow> string \<Rightarrow> double option" where
  "volume_of sv name source =
     map_option (\<lambda>p. volume (audiomix_ports p source)) (m_pipelines sv name)"

text \<open>
  Services over pipelines that only record the num-surfaces-per-frame setting of each
  multiplexer, and an engine that accepts what it is given and records it.
\<close>

definition counting_engine :: "(streammux_type \<Rightarrow> uint) \<Rightarrow> streammux_type \<Rightarrow> uint \<Rightarrow> (bool, streammux_type \<Rightarrow> uint) outcome" where
  "counting_engine p streammux num = Returns True (p(streammux := num))"

definition dsl1 :: "(streammux_type \<Rightarrow> uint) Services" where
  "dsl1 =
     \<lparr>m_pipelines = (\<lambda>n. if n = ''pipeline'' then Some (\<lambda>m. 1) else None),
      m_components = (\<lambda>n. None)\<rparr>"

section \<open>Theorems\<close>

lemmas tiler_defs =
  SetShowSource_def SetShowSource1_def commit_show_source_def add_show_source_timer_def
  cancel_show_source_timer_def g_timeout_add_def g_source_remove_def CycleAllSources_def
  HandleShowSourceTimer_def fire_show_source_timer_def sourceId_of_def IsLinked_def

lemmas example_defs =
  services0_def services_no0_def context0_def tiler0_def tiler_cycling_def context1_def
  tiler_showing_2_def

lemma cycling_is_reached:
  "CycleAllSources services0 2 tiler0 context0 = (True, tiler_cycling, context1)"
  by (simp add: tiler_defs example_defs Let_def)

subsection \<open>SetShowSource\<close>

text \<open>
  C9. For every Tiler and every negative streamId, SetShowSource returns false and
  changes nothing of the Tiler or of the main context, the cycle flag included; on
  every return of a call with a streamId that is not negative the cycle flag is clear.
\<close>

theorem C9_negative_stream_id_no_mutation:
  "(sint streamId < 0 \<longrightarrow>
      SetShowSource sv streamId timeout hasPrecedence t g = (False, t, g)) \<and>
   (\<not> sint streamId < 0 \<longrightarrow>
      \<not> m_showSourceCycle (fst (snd (SetShowSource sv streamId timeout hasPrecedence t g))))"
proof (cases "sint streamId < 0")
  case True
  then show ?thesis by (simp add: SetShowSource_def)
next
  case False
  then show ?thesis
    by (auto simp: tiler_defs Let_def split: option.splits prod.splits bool.splits)
qed

theorem C9_witness:
  "sint (- 3 :: cint) < 0 \<and>
   SetShowSource services0 (- 3) 5 True tiler_cycling context1 = (False, tiler_cycling, context1) \<and>
   m_showSourceCycle tiler_cycling \<and>
   \<not> sint (2 :: cint) < 0 \<and>
   \<not> m_showSourceCycle (fst (snd (SetShowSource services0 2 5 True tiler_cycling context1)))"
  using C9_negative_stream_id_no_mutation [of "- 3" services0 5 True tiler_cycling context1]
    C9_negative_stream_id_no_mutation [of 2 services0 5 True tiler_cycling context1]
  by (simp add: tiler_cycling_def)

text \<open>
  C1, as the code has it. If a show-source timer is recorded and the requested slot
  differs from the shown one, SetShowSource without precedence returns false and leaves
  the shown slot, the timeout, the remaining ticks, the timer id and the main context
  as they were; the cycle flag is cleared unless the requested slot is negative. The
  same call with precedence, for a slot that is not negative and names an active
  source, returns true and the shown slot becomes the requested one.
\<close>

theorem C1_show_source_without_precedence:
  assumes "m_showSourceTimerId t \<noteq> 0" and "streamId \<noteq> m_showStreamId t"
  shows "SetShowSource sv streamId timeout False t g =
           (False, if sint streamId < 0 then t else t\<lparr>m_showSourceCycle := False\<rparr>, g) \<and>
         (\<not> sint streamId < 0 \<and>
          source_names sv (sourceId_of sv (m_pipelineId t) streamId) \<noteq> None \<longrightarrow>
            fst (SetShowSource sv streamId timeout True t g) \<and>
            m_showStreamId (fst (snd (SetShowSource sv streamId timeout True t g))) = streamId)"
proof
  show "SetShowSource sv streamId timeout False t g =
          (False, if sint streamId < 0 then t else t\<lparr>m_showSourceCycle := False\<rparr>, g)"
    using assms by (simp add: SetShowSource_def Let_def)
next
  show "\<not> sint streamId < 0 \<and>
        source_names sv (sourceId_of sv (m_pipelineId t) streamId) \<noteq> None \<longrightarrow>
          fst (SetShowSource sv streamId timeout True t g) \<and>
          m_showStreamId (fst (snd (SetShowSource sv streamId timeout True t g))) = streamId"
    using assms
    by (auto simp: tiler_defs Let_def split: option.splits prod.splits bool.splits)
qed

text \<open>
  The claim as stated fails twice on the Tiler that cycles (source 0 shown, timer 1
  recorded): the refused call for slot 2 clears the cycle flag, and the call with
  precedence for the vacant slot 1 returns false and leaves source 0 shown.
\<close>

theorem C1_counterexample:
  "m_showSourceTimerId tiler_cycling \<noteq> 0 \<and> m_showStreamId tiler_cycling \<noteq> 2 \<and>
   m_showSourceCycle tiler_cycling \<and>
   \<not> fst (SetShowSource services0 2 5 False tiler_cycling context1) \<and>
   \<not> m_showSourceCycle (fst (snd (SetShowSource services0 2 5 False tiler_cycling context1))) \<and>
   m_showStreamId tiler_cycling \<noteq> 1 \<and>
   \<not> fst (SetShowSource services0 1 5 True tiler_cycling context1) \<and>
   m_showStreamId (fst (snd (SetShowSource services0 1 5 True tiler_cycling context1))) = 0"
  by (simp add: tiler_defs example_defs Let_def)

theorem C1_witness:
  "m_showSourceTimerId tiler_cycling \<noteq> 0 \<and> 2 \<noteq> m_showStreamId tiler_cycling \<and>
   SetShowSource services0 2 5 False tiler_cycling context1 =
     (False, tiler_cycling\<lparr>m_showSourceCycle := False\<rparr>, context1) \<and>
   \<not> sint (2 :: cint) < 0 \<and>
   source_names services0 (sourceId_of services0 (m_pipelineId tiler_cycling) 2) \<noteq> None \<and>
   fst (SetShowSource services0 2 5 True tiler_cycling context1) \<and>
   m_showStreamId (fst (snd (SetShowSource services0 2 5 True tiler_cycling context1))) = 2"
proof -
  have h1: "m_showSourceTimerId tiler_cycling \<noteq> 0"
    by (simp add: example_defs)
  have h2: "2 \<noteq> m_showStreamId tiler_cycling"
    by (simp add: example_defs)
  have h3: "source_names services0 (sourceId_of services0 (m_pipelineId tiler_cycling) 2) \<noteq> None"
    by (simp add: example_defs sourceId_of_def)
  show ?thesis
    using C1_show_source_without_precedence [OF h1 h2, of services0 5 context1] h1 h2 h3
    by simp
qed

subsection \<open>The timer tick\<close>

text \<open>
  After 19 ticks the cycling Tiler has one tick left. A call of SetShowSource with
  precedence while a timer is recorded starts a second timer and leaves the first one
  attached.
\<close>

lemma last_tick_is_reached:
  "ticks services0 1 19 tiler_cycling context1 =
     Some (tiler_cycling\<lparr>m_showSourceCounter := 1\<rparr>, context1)"
  by code_simp

lemma precedence_keeps_old_timer:
  "snd (snd (SetShowSource services0 2 5 True tiler_cycling context1)) =
     \<lparr>last_source_id = 2,
      attached = [(1, 100, ShowSourceTimerHandler), (2, 100, ShowSourceTimerHandler)]\<rparr>"
  by (simp add: tiler_defs example_defs Let_def)

text \<open>The remainder by a batch size that is not zero is never the stream id -1.\<close>

lemma mod_ne_minus1: "b \<noteq> 0 \<Longrightarrow> x mod b \<noteq> (- 1 :: 32 word)"
proof
  assume b: "b \<noteq> 0" and e: "x mod b = - 1"
  from b have "x mod b < b" by (simp add: word_mod_less_divisor word_neq_0_conv)
  with e have "(- 1 :: 32 word) < b" by simp
  then show False by simp
qed

lemma tick_continue:
  "IsLinked t \<Longrightarrow> m_showSourceCounter t - 1 \<noteq> 0 \<Longrightarrow>
     HandleShowSourceTimer sv t g = Some (True, t\<lparr>m_showSourceCounter := m_showSourceCounter t - 1\<rparr>, g)"
  by (simp add: HandleShowSourceTimer_def Let_def)

lemma tick_cycle:
  assumes "IsLinked t" "m_showSourceCounter t - 1 = 0" "m_showSourceCycle t" "m_batchSize t \<noteq> 0"
  shows "\<exists>t' g'. HandleShowSourceTimer sv t g = Some (True, t', g') \<and>
           m_showSourceCounter t' = m_showSourceTimeout t * 10 \<and>
           m_showSourceTimerId t' = m_showSourceTimerId t \<and>
           m_showSourceCycle t' \<and>
           m_showStreamId t' =
             (if source_names sv (sourceId_of sv (m_pipelineId t)
                   ((m_showStreamId t + 1) mod m_batchSize t)) \<noteq> None
              then (m_showStreamId t + 1) mod m_batchSize t else m_showStreamId t)"
  using assms mod_ne_minus1[of "m_batchSize t" "m_showStreamId t + 1"]
  by (auto simp: HandleShowSourceTimer_def SetShowSource1_def commit_show_source_def
      g_timeout_add_def Let_def split: option.splits prod.splits)

lemma tick_expire:
  assumes "IsLinked t" "m_showSourceCounter t - 1 = 0" "\<not> m_showSourceCycle t"
  shows "\<exists>t' g'. HandleShowSourceTimer sv t g = Some (False, t', g') \<and>
           m_showSourceCounter t' = 0 \<and> m_showSourceTimerId t' = 0 \<and> m_showStreamId t' = - 1"
  using assms
  by (auto simp: HandleShowSourceTimer_def SetShowSource1_def commit_show_source_def
      g_timeout_add_def Let_def split: option.splits prod.splits)

lemma fire_expire:
  assumes "IsLinked t" "m_showSourceCounter t - 1 = 0" "\<not> m_showSourceCycle t"
    "(i, 100, ShowSourceTimerHandler) \<in> set (attached g)"
  shows "\<exists>t' g'. fire_show_source_timer sv i t g = Some (t', g') \<and> \<not> is_attached i g' \<and>
           m_showSourceTimerId t' = 0 \<and> m_showStreamId t' = - 1"
  using assms
  by (auto simp: fire_show_source_timer_def HandleShowSourceTimer_def SetShowSource1_def commit_show_source_def
      g_timeout_add_def g_source_remove_def is_attached_def Let_def split: option.splits prod.splits)

text \<open>
  C2, as the code has it. For every linked Tiler a timer tick decrements the remaining
  ticks (modulo 2^32). When they reach zero with the cycle flag set and a batch size
  that is not zero, the handler resets the remaining ticks to the timeout times 10,
  moves the shown slot to (slot + 1) mod batchSize if that slot names an active source
  and leaves the shown slot as it is otherwise, keeps the timer id, and returns true
  (continue). When they reach zero with the cycle flag clear, the handler clears the
  timer id, shows all sources (slot -1) and returns false (stop), and the main loop
  then destroys the timer that fired.
\<close>

theorem C2_timer_tick:
  assumes "IsLinked t"
  shows
    "(m_showSourceCounter t - 1 \<noteq> 0 \<longrightarrow>
        HandleShowSourceTimer sv t g =
          Some (True, t\<lparr>m_showSourceCounter := m_showSourceCounter t - 1\<rparr>, g)) \<and>
     (m_showSourceCounter t - 1 = 0 \<and> m_showSourceCycle t \<and> m_batchSize t \<noteq> 0 \<longrightarrow>
        (\<exists>t' g'. HandleShowSourceTimer sv t g = Some (True, t', g') \<and>
           m_showSourceCounter t' = m_showSourceTimeout t * 10 \<and>
           m_showSourceTimerId t' = m_showSourceTimerId t \<and>
           m_showSourceCycle t' \<and>
           m_showStreamId t' =
             (if source_names sv (sourceId_of sv (m_pipelineId t)
                   ((m_showStreamId t + 1) mod m_batchSize t)) \<noteq> None
              then (m_showStreamId t + 1) mod m_batchSize t else m_showStreamId t))) \<and>
     (m_showSourceCounter t - 1 = 0 \<and> \<not> m_showSourceCycle t \<longrightarrow>
        (\<exists>t' g'. HandleShowSourceTimer sv t g = Some (False, t', g') \<and>
           m_showSourceCounter t' = 0 \<and> m_showSourceTimerId t' = 0 \<and>
           m_showStreamId t' = - 1) \<and>
        (\<forall>i. (i, 100, ShowSourceTimerHandler) \<in> set (attached g) \<longrightarrow>
           (\<exists>t' g'. fire_show_source_timer sv i t g = Some (t', g') \<and> \<not> is_attached i g' \<and>
              m_showSourceTimerId t' = 0 \<and> m_showStreamId t' = - 1)))"
  using assms tick_continue [of t sv g] tick_cycle [of t sv g] tick_expire [of t sv g]
    fire_expire [of t _ g sv]
  by blast

text \<open>
  The claim as stated fails on the cycling Tiler with batch size 3 that shows source 0
  when one tick remains and slot 1 is vacant: the handler returns true and source 0
  stays shown. With a batch size of zero the remainder is undefined.
\<close>

theorem C2_counterexample:
  "IsLinked (tiler_cycling\<lparr>m_showSourceCounter := 1\<rparr>) \<and>
   m_showSourceCycle (tiler_cycling\<lparr>m_showSourceCounter := 1\<rparr>) \<and>
   m_showStreamId (tiler_cycling\<lparr>m_showSourceCounter := 1\<rparr>) = 0 \<and>
   m_batchSize (tiler_cycling\<lparr>m_showSourceCounter := 1\<rparr>) = 3 \<and>
   HandleShowSourceTimer services0 (tiler_cycling\<lparr>m_showSourceCounter := 1\<rparr>) context1 =
     Some (True, tiler_cycling\<lparr>m_showSourceCounter := 20, m_wstrSourceName := []\<rparr>, context1) \<and>
   m_showStreamId (tiler_cycling\<lparr>m_showSourceCounter := 20, m_wstrSourceName := []\<rparr>) \<noteq> (0 + 1) mod 3 \<and>
   HandleShowSourceTimer services0 (tiler_cycling\<lparr>m_showSourceCounter := 1, m_batchSize := 0\<rparr>) context1 = None"
  by (simp add: tiler_defs example_defs Let_def)

theorem C2_witness:
  "IsLinked tiler_cycling \<and> m_showSourceCounter tiler_cycling - 1 \<noteq> 0 \<and>
   HandleShowSourceTimer services0 tiler_cycling context1 =
     Some (True, tiler_cycling\<lparr>m_showSourceCounter := 19\<rparr>, context1) \<and>
   IsLinked (tiler_cycling\<lparr>m_showStreamId := 2, m_showSourceCounter := 1\<rparr>) \<and>
   m_showSourceCounter (tiler_cycling\<lparr>m_showStreamId := 2, m_showSourceCounter := 1\<rparr>) - 1 = 0 \<and>
   m_showSourceCycle (tiler_cycling\<lparr>m_showStreamId := 2, m_showSourceCounter := 1\<rparr>) \<and>
   m_batchSize (tiler_cycling\<lparr>m_showStreamId := 2, m_showSourceCounter := 1\<rparr>) \<noteq> 0 \<and>
   source_names services0 (sourceId_of services0 0 ((2 + 1) mod 3)) \<noteq> None \<and>
   HandleShowSourceTimer services0 (tiler_cycling\<lparr>m_showStreamId := 2, m_showSourceCounter := 1\<rparr>) context1 =
     Some (True, tiler_cycling\<lparr>m_showStreamId := 0, m_showSourceCounter := 20\<rparr>, context1) \<and>
   IsLinked tiler_showing_2 \<and> m_showSourceCounter tiler_showing_2 - 1 = 0 \<and>
   \<not> m_showSourceCycle tiler_showing_2 \<and>
   HandleShowSourceTimer services0 tiler_showing_2 context1 =
     Some (False, tiler_showing_2\<lparr>m_showStreamId := - 1, m_showSourceCounter := 0,
             m_showSourceTimerId := 0, m_wstrSourceName := []\<rparr>, context1) \<and>
   (1, 100, ShowSourceTimerHandler) \<in> set (attached context1) \<and>
   fire_show_source_timer services0 1 tiler_showing_2 context1 =
     Some (tiler_showing_2\<lparr>m_showStreamId := - 1, m_showSourceCounter := 0,
             m_showSourceTimerId := 0, m_wstrSourceName := []\<rparr>, context1\<lparr>attached := []\<rparr>)"
  using C2_timer_tick [of tiler_cycling services0 context1]
    C2_timer_tick [of "tiler_cycling\<lparr>m_showStreamId := 2, m_showSourceCounter := 1\<rparr>" services0 context1]
    C2_timer_tick [of tiler_showing_2 services0 context1]
  by (simp add: tiler_defs example_defs Let_def)

subsection \<open>CycleAllSources\<close>

text \<open>
  C6, as the code has it. CycleAllSources(0) returns false and changes nothing of the
  Tiler or of the main context, so no timer is started. CycleAllSources(timeout) with
  timeout > 0 returns true, sets the cycle flag, records the timeout, sets the
  remaining ticks to the timeout times 10 (modulo 2^32), shows slot 0 if slot 0 names
  an active source and leaves the shown slot as it is otherwise, cancels the recorded
  timer (a timer id that the main context has handed out is no longer attached), and,
  when the remaining ticks are not zero, records a new recurring timer that is
  attached with the show-source handler.
\<close>

theorem C6_cycle_all_sources:
  "CycleAllSources sv 0 t g = (False, t, g) \<and>
   (timeout \<noteq> 0 \<longrightarrow>
     (\<exists>t' g'. CycleAllSources sv timeout t g = (True, t', g') \<and>
        m_showSourceCycle t' \<and> m_showSourceTimeout t' = timeout \<and>
        m_showSourceCounter t' = timeout * 10 \<and>
        m_showStreamId t' =
          (if source_names sv (sourceId_of sv (m_pipelineId t) 0) \<noteq> None then 0
           else m_showStreamId t) \<and>
        (m_showSourceTimerId t \<noteq> 0 \<and> m_showSourceTimerId t \<le> last_source_id g \<longrightarrow>
           \<not> is_attached (m_showSourceTimerId t) g') \<and>
        (timeout * 10 \<noteq> 0 \<longrightarrow>
           m_showSourceTimerId t' \<noteq> 0 \<and>
           (m_showSourceTimerId t', 100, ShowSourceTimerHandler) \<in> set (attached g'))))"
proof
  show "CycleAllSources sv 0 t g = (False, t, g)"
    by (simp add: CycleAllSources_def)
next
  show "timeout \<noteq> 0 \<longrightarrow>
     (\<exists>t' g'. CycleAllSources sv timeout t g = (True, t', g') \<and>
        m_showSourceCycle t' \<and> m_showSourceTimeout t' = timeout \<and>
        m_showSourceCounter t' = timeout * 10 \<and>
        m_showStreamId t' =
          (if source_names sv (sourceId_of sv (m_pipelineId t) 0) \<noteq> None then 0
           else m_showStreamId t) \<and>
        (m_showSourceTimerId t \<noteq> 0 \<and> m_showSourceTimerId t \<le> last_source_id g \<longrightarrow>
           \<not> is_attached (m_showSourceTimerId t) g') \<and>
        (timeout * 10 \<noteq> 0 \<longrightarrow>
           m_showSourceTimerId t' \<noteq> 0 \<and>
           (m_showSourceTimerId t', 100, ShowSourceTimerHandler) \<in> set (attached g')))"
    by (auto simp: tiler_defs is_attached_def Let_def split: option.splits prod.splits)
qed

text \<open>
  The claim as stated fails twice on the idle Tiler. Where slot 0 is vacant,
  CycleAllSources(2) returns true, sets the cycle flag and starts the timer, and the
  Tiler goes on showing all sources. With the timeout 2^31 the product with 10 is zero
  in 32 bits: the call returns true with the cycle flag set and starts no timer.
\<close>

theorem C6_counterexample:
  "(2 :: uint) \<noteq> 0 \<and>
   CycleAllSources services_no0 2 tiler0 context0 =
     (True,
      tiler0\<lparr>m_showSourceTimeout := 2, m_showSourceCounter := 20, m_showSourceTimerId := 1,
             m_showSourceCycle := True\<rparr>,
      \<lparr>last_source_id = 1, attached = [(1, 100, ShowSourceTimerHandler)]\<rparr>) \<and>
   m_showStreamId tiler0 = - 1 \<and>
   (2147483648 :: uint) \<noteq> 0 \<and>
   CycleAllSources services0 2147483648 tiler0 context0 =
     (True,
      tiler0\<lparr>m_showStreamId := 0, m_showSourceTimeout := 2147483648, m_showSourceCycle := True,
             m_wstrSourceName := ''cam0''\<rparr>,
      context0) \<and>
   m_showSourceTimerId tiler0 = 0 \<and> attached context0 = []"
  by (simp add: tiler_defs example_defs Let_def)

theorem C6_witness:
  "CycleAllSources services0 0 tiler_cycling context1 = (False, tiler_cycling, context1) \<and>
   (3 :: uint) \<noteq> 0 \<and> (3 :: uint) * 10 \<noteq> 0 \<and>
   m_showSourceTimerId tiler_cycling \<noteq> 0 \<and>
   m_showSourceTimerId tiler_cycling \<le> last_source_id context1 \<and>
   source_names services0 (sourceId_of services0 (m_pipelineId tiler_cycling) 0) \<noteq> None \<and>
   CycleAllSources services0 3 tiler_cycling context1 =
     (True,
      tiler_cycling\<lparr>m_showSourceTimeout := 3, m_showSourceCounter := 30, m_showSourceTimerId := 2\<rparr>,
      \<lparr>last_source_id = 2, attached = [(2, 100, ShowSourceTimerHandler)]\<rparr>) \<and>
   \<not> is_attached 1 \<lparr>last_source_id = 2, attached = [(2, 100, ShowSourceTimerHandler)]\<rparr>"
  using C6_cycle_all_sources [of services0 tiler_cycling context1 3]
  by (simp add: tiler_defs example_defs is_attached_def Let_def)

subsection \<open>GPU id and buffer memory type\<close>

lemma tiler_call_keeps_properties:
  "m_isLinked t \<Longrightarrow>
     m_gpuId (tiler_call c t) = m_gpuId t \<and> m_nvbufMemType (tiler_call c t) = m_nvbufMemType t"
  by (cases c)
    (simp_all add: Tiler_LinkAll_def Tiler_UnlinkAll_def Tiler_SetGpuId_def Tiler_SetNvbufMemType_def)

lemma tiler_call_stays_linked:
  "m_isLinked t \<Longrightarrow> c \<noteq> Call_UnlinkAll \<Longrightarrow> m_isLinked (tiler_call c t)"
  by (cases c)
    (simp_all add: Tiler_LinkAll_def Tiler_SetGpuId_def Tiler_SetNvbufMemType_def)

lemma tiler_calls_keep_properties:
  "m_isLinked t \<Longrightarrow> Call_UnlinkAll \<notin> set cs \<Longrightarrow>
     m_isLinked (tiler_calls cs t) \<and>
     m_gpuId (tiler_calls cs t) = m_gpuId t \<and>
     m_nvbufMemType (tiler_calls cs t) = m_nvbufMemType t"
proof (induction cs arbitrary: t)
  case Nil
  then show ?case by simp
next
  case (Cons c cs)
  from Cons.prems have l: "m_isLinked (tiler_call c t)"
    by (intro tiler_call_stays_linked) auto
  from Cons.prems have "Call_UnlinkAll \<notin> set cs" by simp
  from Cons.IH [OF l this] tiler_call_keeps_properties [OF Cons.prems(1), of c]
  show ?case by simp
qed

text \<open>
  C7, as the code has it. SetGpuId, of the base class and of the Tiler, and the
  Tiler's SetNvbufMemType return false and change nothing when the node is linked; the
  base class's SetNvbufMemType does so when the node is in use. Consequently the GPU id
  of a node does not change under either setter of the base class while the node is
  linked, and neither the GPU id nor the buffer memory type of a Tiler changes under
  a call of LinkAll, UnlinkAll, SetGpuId or SetNvbufMemType made while it is linked,
  nor under any sequence of such calls that keeps it linked.
\<close>

theorem C7_properties_fixed_while_linked:
  fixes b :: "'a Bintr_scheme" and t :: TilerBintr
  shows
    "(IsLinked b \<longrightarrow> Bintr_SetGpuId x b = (False, b)) \<and>
     (IsInUse b \<longrightarrow> Bintr_SetNvbufMemType y b = (False, b)) \<and>
     (IsLinked b \<longrightarrow>
        m_gpuId (snd (Bintr_SetGpuId x b)) = m_gpuId b \<and>
        m_gpuId (snd (Bintr_SetNvbufMemType y b)) = m_gpuId b) \<and>
     (IsLinked t \<longrightarrow> Tiler_SetGpuId x t = (False, t) \<and> Tiler_SetNvbufMemType y t = (False, t)) \<and>
     (IsLinked t \<longrightarrow>
        m_gpuId (tiler_call c t) = m_gpuId t \<and>
        m_nvbufMemType (tiler_call c t) = m_nvbufMemType t) \<and>
     (IsLinked t \<and> Call_UnlinkAll \<notin> set cs \<longrightarrow>
        IsLinked (tiler_calls cs t) \<and>
        m_gpuId (tiler_calls cs t) = m_gpuId t \<and>
        m_nvbufMemType (tiler_calls cs t) = m_nvbufMemType t)"
  using tiler_call_keeps_properties [of t c] tiler_calls_keep_properties [of t cs]
  by (simp add: IsLinked_def IsInUse_def Bintr_SetGpuId_def Bintr_SetNvbufMemType_def
      Tiler_SetGpuId_def Tiler_SetNvbufMemType_def)

text \<open>
  The claim as stated fails on the base class. A node that is linked and not in use
  takes a new buffer memory type while it stays linked; a node that is in use and not
  linked takes a new GPU id.
\<close>

theorem C7_counterexample:
  "IsLinked (node0\<lparr>in_use := False\<rparr>) \<and>
   Bintr_SetNvbufMemType 3 (node0\<lparr>in_use := False\<rparr>) =
     (True, node0\<lparr>in_use := False, m_nvbufMemType := 3\<rparr>) \<and>
   IsLinked (node0\<lparr>in_use := False, m_nvbufMemType := 3\<rparr>) \<and>
   m_nvbufMemType node0 \<noteq> 3 \<and>
   IsInUse (node0\<lparr>m_isLinked := False\<rparr>) \<and>
   Bintr_SetGpuId 1 (node0\<lparr>m_isLinked := False\<rparr>) =
     (True, node0\<lparr>m_isLinked := False, m_gpuId := 1\<rparr>) \<and>
   m_gpuId node0 \<noteq> 1 \<and>
   IsInUse (tiler0\<lparr>m_isLinked := False\<rparr>) \<and>
   Tiler_SetNvbufMemType 3 (tiler0\<lparr>m_isLinked := False\<rparr>) =
     (True, tiler0\<lparr>m_isLinked := False, m_nvbufMemType := 3\<rparr>)"
  by (simp add: node0_def tiler0_def IsLinked_def IsInUse_def Bintr_SetGpuId_def
      Bintr_SetNvbufMemType_def Tiler_SetNvbufMemType_def)

theorem C7_witness:
  "IsLinked node0 \<and> IsInUse node0 \<and>
   Bintr_SetGpuId 1 node0 = (False, node0) \<and>
   Bintr_SetNvbufMemType 3 node0 = (False, node0) \<and>
   IsLinked tiler0 \<and>
   Tiler_SetGpuId 1 tiler0 = (False, tiler0) \<and>
   Tiler_SetNvbufMemType 3 tiler0 = (False, tiler0) \<and>
   Call_UnlinkAll \<notin> set [Call_SetGpuId 1, Call_LinkAll, Call_SetNvbufMemType 3] \<and>
   IsLinked (tiler_calls [Call_SetGpuId 1, Call_LinkAll, Call_SetNvbufMemType 3] tiler0) \<and>
   m_gpuId (tiler_calls [Call_SetGpuId 1, Call_LinkAll, Call_SetNvbufMemType 3] tiler0) = 0 \<and>
   m_nvbufMemType (tiler_calls [Call_SetGpuId 1, Call_LinkAll, Call_SetNvbufMemType 3] tiler0) = 0"
  using C7_properties_fixed_while_linked [of node0 1 3 tiler0 "Call_SetGpuId 1"
      "[Call_SetGpuId 1, Call_LinkAll, Call_SetNvbufMemType 3]"]
  by (simp add: node0_def tiler0_def IsLinked_def IsInUse_def Bintr_SetGpuId_def
      Bintr_SetNvbufMemType_def Tiler_SetGpuId_def Tiler_SetNvbufMemType_def Tiler_LinkAll_def)

subsection \<open>The Player: LinkAll and Stop\<close>

lemmas player_defs = Stop_def HandleStop_def Player_UnlinkAll_def Player_LinkAll_def emit_def
  call_listener_def g_timeout_add_def g_source_remove_def IsLinked_def

lemmas player_example_defs = player0_def player_linked_def all_ok_def unlink_fails_def context0_def

lemma player_linked_is_reached: "Player_LinkAll all_ok player0 = (True, player_linked)"
  by (simp add: player_defs player_example_defs Let_def)

lemma calls_call_listeners:
  "calls (call_listeners co ls p) = calls p @ map (\<lambda>l. Listener_called (fst l) (snd l)) ls"
  by (induction ls arbitrary: p) (simp_all add: call_listener_def emit_def Let_def)

lemma linked_call_listeners: "m_isLinked (call_listeners co ls p) = m_isLinked p"
  by (induction ls arbitrary: p) (simp_all add: call_listener_def emit_def Let_def)

lemma filter_listener_calls:
  "filter is_listener_call (map (\<lambda>l. Listener_called (fst l) (snd l)) ls) =
     map (\<lambda>l. Listener_called (fst l) (snd l)) ls"
  by (induction ls) simp_all

lemma listeners_UnlinkAll:
  "m_terminationEventListeners (Player_UnlinkAll co p) = m_terminationEventListeners p"
  by (simp add: Player_UnlinkAll_def emit_def Let_def)

lemma linked_HandleStop:
  "m_isLinked (HandleStop co p) = m_isLinked (Player_UnlinkAll co p)"
  by (simp add: HandleStop_def Let_def linked_call_listeners Player_UnlinkAll_def emit_def)


lemma count_listener_calls:
  "distinct (map fst ls) \<Longrightarrow> l \<in> set ls \<Longrightarrow>
     count_list (map (\<lambda>l. Listener_called (fst l) (snd l)) ls) (Listener_called (fst l) (snd l)) = 1"
proof (induction ls)
  case Nil
  then show ?case by simp
next
  case (Cons a ls)
  show ?case
  proof (cases "l = a")
    case True
    from Cons.prems have "fst a \<notin> fst ` set ls" by simp
    then have "\<forall>x\<in>set ls. fst x \<noteq> fst a" by (auto simp: image_iff)
    then have "count_list (map (\<lambda>l. Listener_called (fst l) (snd l)) ls)
                 (Listener_called (fst a) (snd a)) = 0"
      by (auto simp: count_list_0_iff)
    with True show ?thesis by simp
  next
    case False
    with Cons.prems have "l \<in> set ls" by simp
    moreover from this Cons.prems have "fst l \<noteq> fst a" by (auto simp: image_iff)
    ultimately have "l \<in> set ls" "fst l \<noteq> fst a" by simp_all
    with Cons show ?thesis by simp
  qed
qed

lemma calls_UnlinkAll:
  "\<exists>pre. calls (Player_UnlinkAll co p) = calls p @ pre \<and> (\<forall>e\<in>set pre. \<not> is_listener_call e)"
  by (simp add: Player_UnlinkAll_def emit_def Let_def)

lemma calls_HandleStop:
  "\<exists>pre. calls (HandleStop co p) =
            calls p @ pre @ map (\<lambda>l. Listener_called (fst l) (snd l)) (m_terminationEventListeners p) \<and>
          (\<forall>e\<in>set pre. \<not> is_listener_call e)"
proof -
  obtain pre where pre: "calls (Player_UnlinkAll co (emit SetState_NULL p)) = calls (emit SetState_NULL p) @ pre"
    "\<forall>e\<in>set pre. \<not> is_listener_call e"
    using calls_UnlinkAll by blast
  show ?thesis
  proof (cases "main_loop_is_running co")
    case True
    with pre have "calls (HandleStop co p) =
            calls p @ (SetState_NULL # pre @ [Cond_signal]) @
              map (\<lambda>l. Listener_called (fst l) (snd l)) (m_terminationEventListeners p)"
      by (simp add: HandleStop_def Let_def calls_call_listeners listeners_UnlinkAll emit_def)
    moreover from pre have "\<forall>e\<in>set (SetState_NULL # pre @ [Cond_signal]). \<not> is_listener_call e"
      by auto
    ultimately show ?thesis by blast
  next
    case False
    with pre have "calls (HandleStop co p) =
            calls p @ (SetState_NULL # pre) @
              map (\<lambda>l. Listener_called (fst l) (snd l)) (m_terminationEventListeners p)"
      by (simp add: HandleStop_def Let_def calls_call_listeners listeners_UnlinkAll emit_def)
    moreover from pre have "\<forall>e\<in>set (SetState_NULL # pre). \<not> is_listener_call e"
      by auto
    ultimately show ?thesis by blast
  qed
qed

lemma calls_Stop:
  assumes "IsLinked p"
  shows "\<exists>pre. calls (fst (snd (Stop co p g))) =
            calls p @ pre @ map (\<lambda>l. Listener_called (fst l) (snd l)) (m_terminationEventListeners p) \<and>
          (\<forall>e\<in>set pre. \<not> is_listener_call e)"
proof (cases "main_loop_is_running co")
  case True
  let ?q = "emit Cond_wait (emit Sleep_1 (emit SendEos p))"
  obtain pre where pre: "calls (HandleStop co ?q) =
       calls ?q @ pre @ map (\<lambda>l. Listener_called (fst l) (snd l)) (m_terminationEventListeners ?q)"
    "\<forall>e\<in>set pre. \<not> is_listener_call e"
    using calls_HandleStop by blast
  from assms True pre(1) have "calls (fst (snd (Stop co p g))) =
       calls p @ ([SendEos, Sleep_1, Cond_wait] @ pre) @
         map (\<lambda>l. Listener_called (fst l) (snd l)) (m_terminationEventListeners p)"
    by (simp add: Stop_def Let_def emit_def split: prod.splits)
  moreover from pre(2) have "\<forall>e\<in>set ([SendEos, Sleep_1, Cond_wait] @ pre). \<not> is_listener_call e"
    by auto
  ultimately show ?thesis by blast
next
  case False
  let ?q = "emit Sleep_1 (emit SendEos p)"
  obtain pre where pre: "calls (HandleStop co ?q) =
       calls ?q @ pre @ map (\<lambda>l. Listener_called (fst l) (snd l)) (m_terminationEventListeners ?q)"
    "\<forall>e\<in>set pre. \<not> is_listener_call e"
    using calls_HandleStop by blast
  from assms False pre(1) have "calls (fst (snd (Stop co p g))) =
       calls p @ ([SendEos, Sleep_1] @ pre) @
         map (\<lambda>l. Listener_called (fst l) (snd l)) (m_terminationEventListeners p)"
    by (simp add: Stop_def Let_def emit_def)
  moreover from pre(2) have "\<forall>e\<in>set ([SendEos, Sleep_1] @ pre). \<not> is_listener_call e"
    by auto
  ultimately show ?thesis by blast
qed

lemma linked_Stop:
  assumes "IsLinked p" "m_pSource p \<noteq> None" "m_pSink p \<noteq> None" "source_UnlinkFromSink_ok co"
  shows "\<not> IsLinked (fst (snd (Stop co p g)))"
  using assms
  by (auto simp: Stop_def Let_def IsLinked_def linked_HandleStop Player_UnlinkAll_def emit_def
      split: prod.splits)

lemma AddTerminationEventListener_distinct:
  "distinct (map fst (m_terminationEventListeners p)) \<Longrightarrow>
     distinct (map fst (m_terminationEventListeners (snd (AddTerminationEventListener f d p))))"
  by (force simp: AddTerminationEventListener_def distinct_map distinct_insort set_insort_key)

text \<open>
  C3, as the code has it. Stop() on a Player that is not linked returns false and
  changes nothing. Stop() on a linked Player returns true, and between its start and
  its return the listener calls are exactly the entries of the registry of termination
  listeners, in order, each once, whether or not a listener raises: with the keys of
  the registry distinct, as AddTerminationEventListener keeps them, every registered
  listener is called exactly once. When both children are present and the Source's
  UnlinkFromSink succeeds, the Player is not linked at the end.
\<close>

theorem C3_stop:
  "(\<not> IsLinked p \<longrightarrow> Stop co p g = (False, p, g)) \<and>
   (IsLinked p \<longrightarrow>
      fst (Stop co p g) \<and>
      filter is_listener_call (drop (length (calls p)) (calls (fst (snd (Stop co p g))))) =
        map (\<lambda>l. Listener_called (fst l) (snd l)) (m_terminationEventListeners p) \<and>
      (distinct (map fst (m_terminationEventListeners p)) \<longrightarrow>
         (\<forall>l\<in>set (m_terminationEventListeners p).
            count_list (drop (length (calls p)) (calls (fst (snd (Stop co p g)))))
              (Listener_called (fst l) (snd l)) = 1)) \<and>
      (m_pSource p \<noteq> None \<and> m_pSink p \<noteq> None \<and> source_UnlinkFromSink_ok co \<longrightarrow>
         \<not> IsLinked (fst (snd (Stop co p g)))))"
proof (cases "IsLinked p")
  case False
  then show ?thesis by (simp add: Stop_def)
next
  case True
  obtain pre where pre: "calls (fst (snd (Stop co p g))) =
       calls p @ pre @ map (\<lambda>l. Listener_called (fst l) (snd l)) (m_terminationEventListeners p)"
    "\<forall>e\<in>set pre. \<not> is_listener_call e"
    using calls_Stop [OF True] by blast
  have r: "fst (Stop co p g)"
    using True by (simp add: Stop_def Let_def split: prod.splits)
  have f: "filter is_listener_call (drop (length (calls p)) (calls (fst (snd (Stop co p g))))) =
        map (\<lambda>l. Listener_called (fst l) (snd l)) (m_terminationEventListeners p)"
    using pre by (simp add: filter_listener_calls)
  have c: "count_list (drop (length (calls p)) (calls (fst (snd (Stop co p g)))))
              (Listener_called (fst l) (snd l)) = 1"
    if "distinct (map fst (m_terminationEventListeners p))" "l \<in> set (m_terminationEventListeners p)" for l
  proof -
    from pre(2) have "Listener_called (fst l) (snd l) \<notin> set pre" by auto
    then have "count_list pre (Listener_called (fst l) (snd l)) = 0"
      by (simp add: count_list_0_iff)
    with pre(1) count_listener_calls [OF that] show ?thesis by simp
  qed
  from True r f c linked_Stop [OF True] show ?thesis by blast
qed


text \<open>
  The claim as stated fails where the Source cannot be unlinked from the Sink:
  UnlinkAll returns early, Stop() returns true and the Player is still linked.
\<close>

theorem C3_counterexample:
  "IsLinked player_linked \<and>
   m_pSource player_linked \<noteq> None \<and> m_pSink player_linked \<noteq> None \<and>
   fst (Stop unlink_fails player_linked context0) \<and>
   IsLinked (fst (snd (Stop unlink_fails player_linked context0)))"
  by (simp add: player_defs player_example_defs Let_def)

theorem C3_witness:
  "\<not> IsLinked player0 \<and> Stop all_ok player0 context0 = (False, player0, context0) \<and>
   IsLinked player_linked \<and>
   distinct (map fst (m_terminationEventListeners player_linked)) \<and>
   m_pSource player_linked \<noteq> None \<and> m_pSink player_linked \<noteq> None \<and>
   source_UnlinkFromSink_ok all_ok \<and> listener_raises all_ok 11 \<and>
   Stop all_ok player_linked context0 =
     (True,
      player_linked\<lparr>m_isLinked := False,
        calls := [Source_LinkAll, Sink_LinkAll, Source_LinkToSink, SendEos, Sleep_1,
                  SetState_NULL, Source_UnlinkFromSink, Source_UnlinkAll, Sink_UnlinkAll,
                  Listener_called 11 100, Listener_called 12 200, Listener_called 13 300]\<rparr>,
      context0) \<and>
   count_list (drop (length (calls player_linked))
       (calls (fst (snd (Stop all_ok player_linked context0))))) (Listener_called 12 200) = 1"
  using C3_stop [of player0 all_ok context0] C3_stop [of player_linked all_ok context0]
  by (simp add: player_defs player_example_defs Let_def)

text \<open>
  C4. LinkAll returns false and changes nothing when the Source or the Sink is missing
  or the Player is already linked. Otherwise it calls the Source's LinkAll, then the
  Sink's LinkAll, then the Source's LinkToSink, in that order and each only after the
  one before it succeeded; it returns true and sets isLinked exactly when all three
  succeed, and isLinked stays false on a failure of any of them.
\<close>

theorem C4_link_all:
  "(m_pSource p = None \<or> m_pSink p = None \<or> m_isLinked p \<longrightarrow>
      Player_LinkAll co p = (False, p)) \<and>
   (m_pSource p \<noteq> None \<and> m_pSink p \<noteq> None \<and> \<not> m_isLinked p \<longrightarrow>
      fst (Player_LinkAll co p) =
        (source_LinkAll_ok co \<and> sink_LinkAll_ok co \<and> source_LinkToSink_ok co) \<and>
      m_isLinked (snd (Player_LinkAll co p)) = fst (Player_LinkAll co p) \<and>
      calls (snd (Player_LinkAll co p)) =
        calls p @
          (if \<not> source_LinkAll_ok co then [Source_LinkAll]
           else if \<not> sink_LinkAll_ok co then [Source_LinkAll, Sink_LinkAll]
           else [Source_LinkAll, Sink_LinkAll, Source_LinkToSink]))"
proof (cases "m_pSource p = None \<or> m_pSink p = None \<or> m_isLinked p")
  case True
  then show ?thesis by (auto simp: Player_LinkAll_def)
next
  case False
  then show ?thesis by (simp add: Player_LinkAll_def emit_def Let_def)
qed

theorem C4_witness:
  "m_isLinked player_linked \<and> Player_LinkAll all_ok player_linked = (False, player_linked) \<and>
   m_pSource (player0\<lparr>m_pSink := None\<rparr>) \<noteq> None \<and> m_pSink (player0\<lparr>m_pSink := None\<rparr>) = None \<and>
   Player_LinkAll all_ok (player0\<lparr>m_pSink := None\<rparr>) = (False, player0\<lparr>m_pSink := None\<rparr>) \<and>
   m_pSource player0 \<noteq> None \<and> m_pSink player0 \<noteq> None \<and> \<not> m_isLinked player0 \<and>
   Player_LinkAll all_ok player0 =
     (True, player0\<lparr>m_isLinked := True, calls := [Source_LinkAll, Sink_LinkAll, Source_LinkToSink]\<rparr>) \<and>
   Player_LinkAll (all_ok\<lparr>sink_LinkAll_ok := False\<rparr>) player0 =
     (False, player0\<lparr>calls := [Source_LinkAll, Sink_LinkAll]\<rparr>)"
  using C4_link_all [of player_linked all_ok] C4_link_all [of "player0\<lparr>m_pSink := None\<rparr>" all_ok]
    C4_link_all [of player0 all_ok] C4_link_all [of player0 "all_ok\<lparr>sink_LinkAll_ok := False\<rparr>"]
  by (simp add: player_defs player_example_defs Let_def)

subsection \<open>The slot pool\<close>

text \<open>The equation of the scan is unfolded one step at a time, by the three lemmas below.\<close>

declare scan_from.simps [simp del]

lemma scan_from_used: "i < length used \<Longrightarrow> used ! i \<Longrightarrow> scan_from i used = scan_from (Suc i) used"
  by (subst scan_from.simps) simp

lemma scan_from_free: "i < length used \<Longrightarrow> \<not> used ! i \<Longrightarrow> scan_from i used = Some i"
  by (subst scan_from.simps) simp

lemma scan_from_end: "\<not> i < length used \<Longrightarrow> scan_from i used = None"
  by (subst scan_from.simps) simp

lemma scan_from_None: "scan_from i used = None \<longleftrightarrow> (\<forall>j. i \<le> j \<and> j < length used \<longrightarrow> used ! j)"
proof (induction i used rule: scan_from.induct)
  case (1 i used)
  show ?case
  proof (cases "i < length used \<and> used ! i")
    case True
    then have "scan_from i used = scan_from (Suc i) used" by (simp add: scan_from_used)
    moreover have "(\<forall>j. i \<le> j \<and> j < length used \<longrightarrow> used ! j) \<longleftrightarrow>
                   (\<forall>j. Suc i \<le> j \<and> j < length used \<longrightarrow> used ! j)"
      using True by (metis Suc_leI le_neq_implies_less Suc_leD)
    ultimately show ?thesis using 1 True by simp
  next
    case False
    then show ?thesis
      by (cases "i < length used") (auto simp: scan_from_free scan_from_end)
  qed
qed

lemma scan_from_Some:
  "scan_from i used = Some k \<Longrightarrow>
     i \<le> k \<and> k < length used \<and> \<not> used ! k \<and> (\<forall>j. i \<le> j \<and> j < k \<longrightarrow> used ! j)"
proof (induction i used rule: scan_from.induct)
  case (1 i used)
  show ?case
  proof (cases "i < length used \<and> used ! i")
    case True
    with 1 have h: "Suc i \<le> k \<and> k < length used \<and> \<not> used ! k \<and>
                   (\<forall>j. Suc i \<le> j \<and> j < k \<longrightarrow> used ! j)"
      by (simp add: scan_from_used)
    then have "\<forall>j. i \<le> j \<and> j < k \<longrightarrow> used ! j"
      using True by (metis Suc_leI le_neq_implies_less)
    with h show ?thesis by simp
  next
    case False
    with "1.prems" show ?thesis
      by (cases "i < length used") (auto simp: scan_from_free scan_from_end)
  qed
qed


lemma slot_reuse:
  assumes "3 \<le> n"
  shows "Allocate (replicate n False) = Some (0, (replicate n False)[0 := True]) \<and>
         Allocate ((replicate n False)[0 := True]) = Some (1, (replicate n False)[0 := True, 1 := True]) \<and>
         Allocate ((replicate n False)[0 := True, 1 := True]) =
           Some (2, (replicate n False)[0 := True, 1 := True, 2 := True]) \<and>
         Release 1 ((replicate n False)[0 := True, 1 := True, 2 := True]) =
           (True, (replicate n False)[0 := True, 1 := True, 2 := True, 1 := False]) \<and>
         Allocate ((replicate n False)[0 := True, 1 := True, 2 := True, 1 := False]) =
           Some (1, (replicate n False)[0 := True, 1 := True, 2 := True, 1 := False, 1 := True])"
  using assms by (simp add: Allocate_def Release_def scan_from_used scan_from_free numeral_2_eq_2)


text \<open>
  C8. For every state of the slot pool, and so after every sequence of allocations and
  releases, Allocate fails exactly when every slot up to the capacity is used;
  otherwise it returns the lowest-indexed free slot and marks it used. In a pool of
  capacity at least three with no slot used, three allocations return 0, 1 and 2, and
  after the release of slot 1 the next allocation returns 1 again.
\<close>

theorem C8_slot_pool:
  "(Allocate used = None \<longleftrightarrow> (\<forall>j < length used. used ! j)) \<and>
   (\<forall>slotId used'. Allocate used = Some (slotId, used') \<longrightarrow>
      slotId < length used \<and> \<not> used ! slotId \<and> (\<forall>j < slotId. used ! j) \<and>
      used' = used[slotId := True] \<and> used' ! slotId) \<and>
   (3 \<le> n \<longrightarrow>
      (\<exists>p1 p2 p3 p4 p5.
         Allocate (replicate n False) = Some (0, p1) \<and>
         Allocate p1 = Some (1, p2) \<and>
         Allocate p2 = Some (2, p3) \<and>
         Release 1 p3 = (True, p4) \<and>
         Allocate p4 = Some (1, p5)))"
proof -
  have exhausted: "Allocate used = None \<longleftrightarrow> (\<forall>j < length used. used ! j)"
    using scan_from_None [of 0 used] by (cases "scan_from 0 used") (auto simp: Allocate_def)
  have lowest: "slotId < length used \<and> \<not> used ! slotId \<and> (\<forall>j < slotId. used ! j) \<and>
      used' = used[slotId := True] \<and> used' ! slotId"
    if a: "Allocate used = Some (slotId, used')" for slotId used'
  proof -
    from a have s: "scan_from 0 used = Some slotId" and u: "used' = used[slotId := True]"
      by (auto simp: Allocate_def split: option.splits)
    from scan_from_Some [OF s] u show ?thesis by simp
  qed
  have reuse: "\<exists>p1 p2 p3 p4 p5.
         Allocate (replicate n False) = Some (0, p1) \<and>
         Allocate p1 = Some (1, p2) \<and>
         Allocate p2 = Some (2, p3) \<and>
         Release 1 p3 = (True, p4) \<and>
         Allocate p4 = Some (1, p5)" if "3 \<le> n"
    using slot_reuse [OF that] by blast
  from exhausted lowest reuse show ?thesis by blast
qed

lemmas pool_eval = Allocate_def Release_def scan_from_used scan_from_free scan_from_end

theorem C8_witness:
  "length [True, True, True] = 3 \<and>
   [True, True, True] ! 0 \<and> [True, True, True] ! 1 \<and> [True, True, True] ! 2 \<and>
   Allocate [True, True, True] = None \<and>
   Allocate [True, False, True, False] = Some (1, [True, True, True, False]) \<and>
   \<not> [True, False, True, False] ! 1 \<and>
   (3 :: nat) \<le> 4 \<and>
   replicate 4 False = [False, False, False, False] \<and>
   Allocate [False, False, False, False] = Some (0, [True, False, False, False]) \<and>
   Allocate [True, False, False, False] = Some (1, [True, True, False, False]) \<and>
   Allocate [True, True, False, False] = Some (2, [True, True, True, False]) \<and>
   Release 1 [True, True, True, False] = (True, [True, False, True, False])"
proof -
  have full: "\<forall>j < length [True, True, True]. [True, True, True] ! j"
    by (simp add: nth_Cons')
  from C8_slot_pool [of "[True, True, True]" 4] full
  have a: "Allocate [True, True, True] = None" by blast
  have b: "Allocate [True, False, True, False] = Some (1, [True, True, True, False])"
    by (simp add: pool_eval)
  from C8_slot_pool [of "[True, False, True, False]" 4] b
  have c: "\<not> [True, False, True, False] ! 1" by blast
  have d: "replicate 4 False = [False, False, False, False]"
    by (simp add: numeral_eq_Suc)
  have e: "Allocate [False, False, False, False] = Some (0, [True, False, False, False])"
    "Allocate [True, False, False, False] = Some (1, [True, True, False, False])"
    "Allocate [True, True, False, False] = Some (2, [True, True, True, False])"
    "Release 1 [True, True, True, False] = (True, [True, False, True, False])"
    by (simp_all add: pool_eval)
  from full a b c d e show ?thesis by simp
qed

subsection \<open>The service layer\<close>

text \<open>
  C10. For every pipeline the services know, a num-surfaces-per-frame greater than 4 is
  refused with the set-failed code whatever the engine would do, and the services, the
  pipeline's setting with them, stay as they were; a value from 0 to 4 is handed to the
  engine, whose answer decides the result code and whose pipeline is stored.
\<close>

theorem C10_num_surfaces_per_frame:
  assumes "m_pipelines sv name = Some p"
  shows
    "(4 < num \<longrightarrow>
        PipelineStreammuxNumSurfacesPerFrameSet engine sv name streammux num =
          (DSL_RESULT_PIPELINE_STREAMMUX_SET_FAILED, sv)) \<and>
     (num \<le> 4 \<longrightarrow>
        (case engine p streammux num of
           Returns ok p' \<Rightarrow>
             PipelineStreammuxNumSurfacesPerFrameSet engine sv name streammux num =
               (if ok then DSL_RESULT_SUCCESS else DSL_RESULT_PIPELINE_STREAMMUX_SET_FAILED,
                store_pipeline name p' sv)
         | Throws p' \<Rightarrow>
             PipelineStreammuxNumSurfacesPerFrameSet engine sv name streammux num =
               (DSL_RESULT_PIPELINE_THREW_EXCEPTION, store_pipeline name p' sv)))"
  using assms
  by (auto simp: PipelineStreammuxNumSurfacesPerFrameSet_def not_less split: outcome.splits)

theorem C10_witness:
  "m_pipelines dsl1 ''pipeline'' = Some (\<lambda>m. 1) \<and> (4 :: uint) < 5 \<and> (4 :: uint) \<le> 4 \<and>
   PipelineStreammuxNumSurfacesPerFrameSet counting_engine dsl1 ''pipeline'' DSL_VIDEOMUX 5 =
     (DSL_RESULT_PIPELINE_STREAMMUX_SET_FAILED, dsl1) \<and>
   fst (PipelineStreammuxNumSurfacesPerFrameSet counting_engine dsl1 ''pipeline'' DSL_VIDEOMUX 4) =
     DSL_RESULT_SUCCESS \<and>
   map_option (\<lambda>p. p DSL_VIDEOMUX)
     (m_pipelines (snd (PipelineStreammuxNumSurfacesPerFrameSet counting_engine dsl1 ''pipeline'' DSL_VIDEOMUX 4))
        ''pipeline'') = Some 4"
  using C10_num_surfaces_per_frame [of dsl1 "''pipeline''" "\<lambda>m. 1" 5 counting_engine DSL_VIDEOMUX]
    C10_num_surfaces_per_frame [of dsl1 "''pipeline''" "\<lambda>m. 1" 4 counting_engine DSL_VIDEOMUX]
  by (simp add: dsl1_def counting_engine_def store_pipeline_def)

lemma less_double_out_of_range:
  "v \<noteq> NaN \<Longrightarrow> \<not> in_volume_range v \<Longrightarrow> less_double v (Finite 0) \<or> less_double (Finite 10) v"
  by (cases v) auto

lemma less_double_in_range:
  "in_volume_range v \<Longrightarrow> \<not> (less_double v (Finite 0) \<or> less_double (Finite 10) v)"
  by (cases v) auto

lemma store_pipeline_same: "m_pipelines sv name = Some p \<Longrightarrow> store_pipeline name p sv = sv"
proof -
  assume "m_pipelines sv name = Some p"
  then have "(m_pipelines sv)(name := Some p) = m_pipelines sv" by (rule fun_upd_idem)
  then show ?thesis by (simp add: store_pipeline_def)
qed

text \<open>
  C5. For every pipeline and audio source the services know: a volume that is a number
  or an infinity outside [0.0, 10.0] is refused by the service itself with the
  set-failed code, whatever the engine, and the services stay as they were; with the
  engine of the spec every volume outside [0.0, 10.0], NaN included, is refused in
  the same way, and every volume inside, so 0.0 and 10.0, succeeds and changes the
  volume of the port of that source and nothing else.
\<close>

theorem C5_audiomix_volume:
  assumes "m_pipelines sv name = Some p" and "m_components sv source = Some AudioSourceBintr"
  shows
    "(v \<noteq> NaN \<and> \<not> in_volume_range v \<longrightarrow>
        PipelineAudiomixVolumeSet engine sv name source v =
          (DSL_RESULT_PIPELINE_AUDIOMIX_SET_FAILED, sv)) \<and>
     (\<not> in_volume_range v \<longrightarrow>
        PipelineAudiomixVolumeSet SetAudiomixVolume sv name source v =
          (DSL_RESULT_PIPELINE_AUDIOMIX_SET_FAILED, sv)) \<and>
     (in_volume_range v \<longrightarrow>
        PipelineAudiomixVolumeSet SetAudiomixVolume sv name source v =
          (DSL_RESULT_SUCCESS,
           store_pipeline name
             (p\<lparr>audiomix_ports := (audiomix_ports p)(source := (audiomix_ports p source)\<lparr>volume := v\<rparr>)\<rparr>)
             sv)) \<and>
     in_volume_range (Finite 0) \<and> in_volume_range (Finite 10)"
proof -
  have rejected: "PipelineAudiomixVolumeSet engine sv name source v =
          (DSL_RESULT_PIPELINE_AUDIOMIX_SET_FAILED, sv)" if "v \<noteq> NaN" "\<not> in_volume_range v"
    using assms less_double_out_of_range [OF that]
    by (simp add: PipelineAudiomixVolumeSet_def)
  have refused: "PipelineAudiomixVolumeSet SetAudiomixVolume sv name source v =
          (DSL_RESULT_PIPELINE_AUDIOMIX_SET_FAILED, sv)" if "\<not> in_volume_range v"
  proof (cases "v = NaN")
    case True
    with assms show ?thesis
      by (simp add: PipelineAudiomixVolumeSet_def SetAudiomixVolume_def store_pipeline_same)
  next
    case False
    from rejected [OF False that] show ?thesis
      using assms less_double_out_of_range [OF False that]
      by (simp add: PipelineAudiomixVolumeSet_def)
  qed
  have accepted: "PipelineAudiomixVolumeSet SetAudiomixVolume sv name source v =
          (DSL_RESULT_SUCCESS,
           store_pipeline name
             (p\<lparr>audiomix_ports := (audiomix_ports p)(source := (audiomix_ports p source)\<lparr>volume := v\<rparr>)\<rparr>)
             sv)" if "in_volume_range v"
    using assms that less_double_in_range [OF that]
    by (simp add: PipelineAudiomixVolumeSet_def SetAudiomixVolume_def)
  from rejected refused accepted show ?thesis by simp
qed

theorem C5_witness:
  "m_pipelines dsl0 ''pipeline'' = Some pipeline0 \<and>
   m_components dsl0 ''mic'' = Some AudioSourceBintr \<and>
   Finite 11 \<noteq> NaN \<and> \<not> in_volume_range (Finite 11) \<and>
   PipelineAudiomixVolumeSet SetAudiomixVolume dsl0 ''pipeline'' ''mic'' (Finite 11) =
     (DSL_RESULT_PIPELINE_AUDIOMIX_SET_FAILED, dsl0) \<and>
   volume_of dsl0 ''pipeline'' ''mic'' = Some (Finite 1) \<and>
   fst (PipelineAudiomixVolumeSet SetAudiomixVolume dsl0 ''pipeline'' ''mic'' (Finite 0)) =
     DSL_RESULT_SUCCESS \<and>
   fst (PipelineAudiomixVolumeSet SetAudiomixVolume dsl0 ''pipeline'' ''mic'' (Finite 10)) =
     DSL_RESULT_SUCCESS \<and>
   volume_of (snd (PipelineAudiomixVolumeSet SetAudiomixVolume dsl0 ''pipeline'' ''mic'' (Finite 10)))
     ''pipeline'' ''mic'' = Some (Finite 10) \<and>
   volume_of (snd (PipelineAudiomixVolumeSet SetAudiomixVolume dsl0 ''pipeline'' ''mic'' (Finite 10)))
     ''pipeline'' ''radio'' = Some (Finite 1)"
proof -
  have h1: "m_pipelines dsl0 ''pipeline'' = Some pipeline0"
    by (simp add: dsl0_def)
  have h2: "m_components dsl0 ''mic'' = Some AudioSourceBintr"
    by (simp add: dsl0_def)
  note t11 = C5_audiomix_volume [OF h1 h2, of "Finite 11" SetAudiomixVolume]
  note t0 = C5_audiomix_volume [OF h1 h2, of "Finite 0" SetAudiomixVolume]
  note t10 = C5_audiomix_volume [OF h1 h2, of "Finite 10" SetAudiomixVolume]
  have a: "PipelineAudiomixVolumeSet SetAudiomixVolume dsl0 ''pipeline'' ''mic'' (Finite 11) =
     (DSL_RESULT_PIPELINE_AUDIOMIX_SET_FAILED, dsl0)"
    using t11 by simp
  have b: "fst (PipelineAudiomixVolumeSet SetAudiomixVolume dsl0 ''pipeline'' ''mic'' (Finite 0)) =
     DSL_RESULT_SUCCESS"
    using t0 by simp
  have c: "PipelineAudiomixVolumeSet SetAudiomixVolume dsl0 ''pipeline'' ''mic'' (Finite 10) =
     (DSL_RESULT_SUCCESS,
      store_pipeline ''pipeline''
        (pipeline0\<lparr>audiomix_ports :=
           (audiomix_ports pipeline0)(''mic'' := (audiomix_ports pipeline0 ''mic'')\<lparr>volume := Finite 10\<rparr>)\<rparr>)
        dsl0)"
    using t10 by simp
  have d: "fst (PipelineAudiomixVolumeSet SetAudiomixVolume dsl0 ''pipeline'' ''mic'' (Finite 10)) =
     DSL_RESULT_SUCCESS"
    by (simp add: c)
  have e: "volume_of (snd (PipelineAudiomixVolumeSet SetAudiomixVolume dsl0 ''pipeline'' ''mic'' (Finite 10)))
     ''pipeline'' ''mic'' = Some (Finite 10)"
    by (simp add: c volume_of_def store_pipeline_def)
  have f: "volume_of (snd (PipelineAudiomixVolumeSet SetAudiomixVolume dsl0 ''pipeline'' ''mic'' (Finite 10)))
     ''pipeline'' ''radio'' = Some (Finite 1)"
    by (simp add: c volume_of_def store_pipeline_def pipeline0_def)
  have g: "volume_of dsl0 ''pipeline'' ''mic'' = Some (Finite 1)"
    by (simp add: volume_of_def dsl0_def pipeline0_def)
  from h1 h2 a b d e f g show ?thesis by simp
qed

end
